theory Spec2Isabelle
  imports Main
begin

section \<open>The note window component of knowte (note.component.ts)\<close>

text \<open>
  The component keeps the title and the body of one note, saves each of them some time
  after the last edit, and intercepts the closing of its window while something is
  unsaved. The embedding follows the class \<open>NoteComponent\<close> member by member: its fields
  are a record, each method is a function from the state to the new state and the list
  of calls the method makes on its collaborators, in the order it makes them.
\<close>

subsection \<open>Values exchanged with the collaborators\<close>

text \<open>
  The enum \<open>Operation\<close> is declared in \<open>core/enums\<close>, which is not among the sources.
  The component compares a result with \<open>Operation.Blank\<close>, \<open>Operation.Error\<close> and
  \<open>Operation.Success\<close> only; \<open>OtherOperation n\<close> stands for any further member.
\<close>

datatype Operation = Success | Error | Blank | OtherOperation nat

record RenameNoteResult =
  operation :: Operation
  newNoteTitle :: string

text \<open>
  \<open>noteContent\<close> is a string that may be absent (\<open>null\<close> or \<open>undefined\<close>): \<open>None\<close>.
\<close>

record GetNoteContentResult =
  getOperation :: Operation
  noteContent :: "string option"

text \<open>The entity \<open>Note\<close>, of which the component reads \<open>id\<close> and \<open>title\<close>.\<close>

record Note =
  note_id :: string
  note_title :: string

text \<open>
  The collaborators injected into the constructor, and the two library functions the
  component calls. None of them is under the sources, so each is a parameter: what the
  call returns for its arguments. \<open>'d\<close> is the type of the editor's contents (a Quill
  delta). \<open>JSON_parse\<close> is \<open>None\<close> where \<open>JSON.parse\<close> throws a \<open>SyntaxError\<close>.
\<close>

record 'd collaborators =
  getNote :: "string \<Rightarrow> Note"
  renameNote :: "string \<Rightarrow> string \<Rightarrow> string \<Rightarrow> RenameNoteResult"
  updateNoteContent :: "string \<Rightarrow> string \<Rightarrow> string \<Rightarrow> Operation"
  updateNote :: "string \<Rightarrow> string \<Rightarrow> string \<Rightarrow> string \<Rightarrow> Operation"
  getNoteContent :: "string \<Rightarrow> GetNoteContentResult"
  translate :: "string \<Rightarrow> (string \<times> string) list \<Rightarrow> string"
  getText :: "'d \<Rightarrow> string"
  JSON_stringify :: "'d \<Rightarrow> string"
  JSON_parse :: "string \<Rightarrow> 'd option"

text \<open>
  Every call the component makes on the outside, as an entry of a trace:
  \<^item> \<open>LogInfo\<close>: \<open>log.info\<close>;
  \<^item> \<open>PreventDefault\<close>, \<open>SetReturnValue\<close>: on the \<open>beforeunload\<close> event;
  \<^item> \<open>SetNoteIsOpen\<close>, \<open>RenameNote\<close>, \<open>UpdateNoteContent\<close>, \<open>UpdateNote\<close>,
    \<open>GetNoteContent\<close>: the methods of the collection service, with their arguments;
  \<^item> \<open>NoteTitleCannotBeEmptyAsync\<close>: the snack bar's notice;
  \<^item> \<open>DialogOpen w t\<close>: \<open>dialog.open(ErrorDialogComponent, ...)\<close> of width \<open>w\<close> with
    error text \<open>t\<close>;
  \<^item> \<open>WindowClose\<close>: \<open>remote.getCurrentWindow().close()\<close>;
  \<^item> \<open>UnhandledRejection\<close>: an exception that leaves an \<open>async\<close> subscriber, whose
    promise nobody awaits.
\<close>

datatype error = SyntaxError

datatype effect =
    LogInfo string
  | PreventDefault
  | SetReturnValue string
  | SetNoteIsOpen string bool
  | RenameNote string string string
  | UpdateNoteContent string string string
  | UpdateNote string string string string
  | GetNoteContent string
  | NoteTitleCannotBeEmptyAsync
  | DialogOpen string string
  | WindowClose
  | UnhandledRejection error

subsection \<open>The component's state\<close>

text \<open>
  The three subjects are piped through \<open>debounceTime\<close>; of a debounced subject the state
  keeps the value that waits for its timer (\<open>None\<close>: nothing waits). \<open>next v\<close> replaces
  whatever waits by \<open>v\<close> and restarts the timer; when the timer elapses the value is
  handed to the subscriber and nothing waits any more. \<open>quill\<close> is the editor, through
  its contents.
\<close>

record 'd NoteComponent =
  noteTitleChanged :: "string option"
  noteTextChanged :: "string option"
  saveChangedAndCloseNoteWindow :: "string option"
  isTitleChanged :: bool
  isContentChanged :: bool
  noteId :: string
  originalNoteTitle :: string
  noteTitle :: string
  quill :: 'd

subsection \<open>The methods\<close>

text \<open>The condition of \<open>beforeunloadHandler\<close>: one of the two flags is set.\<close>

definition isAnyDirty :: "'d NoteComponent \<Rightarrow> bool" where
  "isAnyDirty s = (isTitleChanged s \<or> isContentChanged s)"

definition beforeunloadHandler :: "'d NoteComponent \<Rightarrow> 'd NoteComponent \<times> effect list" where
  "beforeunloadHandler s =
     (if isTitleChanged s \<or> isContentChanged s then
        (s\<lparr>isTitleChanged := False, isContentChanged := False,
           saveChangedAndCloseNoteWindow := Some ''''\<rparr>,
         [LogInfo (''Detected closing of note with id='' @ noteId s),
          LogInfo (''Note with id='' @ noteId s @
                   '' is dirty. Preventing close to save changes first.''),
          PreventDefault,
          SetReturnValue ''''])
      else
        (s,
         [LogInfo (''Detected closing of note with id='' @ noteId s),
          LogInfo (''Note with id='' @ noteId s @ '' is clean. Closing directly.''),
          SetNoteIsOpen (noteId s) False]))"

text \<open>The handler of the editor's \<open>text-change\<close>, after the editor took the edit \<open>d\<close>.\<close>

definition textChange :: "'d \<Rightarrow> 'd NoteComponent \<Rightarrow> 'd NoteComponent" where
  "textChange d s = s\<lparr>quill := d, isContentChanged := True, noteTextChanged := Some ''''\<rparr>"

definition onNotetitleChange :: "string \<Rightarrow> 'd NoteComponent \<Rightarrow> 'd NoteComponent" where
  "onNotetitleChange newTitle s = s\<lparr>isTitleChanged := True, noteTitleChanged := Some newTitle\<rparr>"

definition saveNoteTitleAsync ::
  "'d collaborators \<Rightarrow> 'd NoteComponent \<Rightarrow> string \<Rightarrow> 'd NoteComponent \<times> effect list" where
  "saveNoteTitleAsync env s newTitle =
     (let renameNoteResult = renameNote env (noteId s) (originalNoteTitle s) newTitle;
          called = RenameNote (noteId s) (originalNoteTitle s) newTitle
      in
        if operation renameNoteResult = Blank then
          (s\<lparr>noteTitle := originalNoteTitle s\<rparr>, [called, NoteTitleCannotBeEmptyAsync])
        else if operation renameNoteResult = Error then
          (s\<lparr>noteTitle := originalNoteTitle s\<rparr>,
           [called,
            DialogOpen ''450px''
              (translate env ''ErrorTexts.RenameNoteError''
                 [(''noteTitle'', originalNoteTitle s)])])
        else if operation renameNoteResult = Success then
          (s\<lparr>originalNoteTitle := newNoteTitle renameNoteResult,
             noteTitle := newNoteTitle renameNoteResult\<rparr>,
           [called])
        else
          (s, [called]))"

definition saveNoteContentAsync ::
  "'d collaborators \<Rightarrow> 'd NoteComponent \<Rightarrow> 'd NoteComponent \<times> effect list" where
  "saveNoteContentAsync env s =
     (let textContent = getText env (quill s);
          jsonContent = JSON_stringify env (quill s);
          result = updateNoteContent env (noteId s) textContent jsonContent;
          called = UpdateNoteContent (noteId s) textContent jsonContent
      in
        if result = Error then
          (s, [called,
               DialogOpen ''450px'' (translate env ''ErrorTexts.UpdateNoteContentError'' [])])
        else
          (s, [called]))"

text \<open>\<open>saveNoteAll\<close> calls \<open>updateNote\<close> as a statement: what it returns is dropped.\<close>

definition saveNoteAll ::
  "'d collaborators \<Rightarrow> 'd NoteComponent \<Rightarrow> 'd NoteComponent \<times> effect list" where
  "saveNoteAll env s =
     (let textContent = getText env (quill s);
          jsonContent = JSON_stringify env (quill s);
          dropped = updateNote env (noteId s) (noteTitle s) textContent jsonContent
      in (s, [UpdateNote (noteId s) (noteTitle s) textContent jsonContent]))"

text \<open>
  \<open>getNoteContentAsync\<close> has no \<open>try\<close>: where \<open>JSON.parse\<close> throws, the method ends
  there and the exception is its outcome (the third component).
\<close>

definition getNoteContentAsync ::
  "'d collaborators \<Rightarrow> 'd NoteComponent \<Rightarrow> 'd NoteComponent \<times> effect list \<times> error option" where
  "getNoteContentAsync env s =
     (let getNoteContentResult = getNoteContent env (noteId s);
          called = GetNoteContent (noteId s)
      in
        if getOperation getNoteContentResult = Error then
          (s, [called,
               DialogOpen ''450px'' (translate env ''ErrorTexts.GetNoteContentError'' [])],
           None)
        else
          (case noteContent getNoteContentResult of
             None \<Rightarrow> (s, [called], None)
           | Some c \<Rightarrow>
               if c = [] then (s, [called], None)
               else
                 (case JSON_parse env c of
                    None \<Rightarrow> (s, [called], Some SyntaxError)
                  | Some d \<Rightarrow> (s\<lparr>quill := d\<rparr>, [called], None))))"

subsection \<open>The subscribers of \<open>ngOnInit\<close>\<close>

text \<open>
  \<open>ngOnInit\<close> starts the data store, builds the editor and subscribes; what it
  subscribes is modelled, the setup is not. The first subscriber is the one of the
  route's query parameters, for the parameter \<open>id\<close>.
\<close>

definition queryParamsSubscriber ::
  "'d collaborators \<Rightarrow> string \<Rightarrow> 'd NoteComponent \<Rightarrow> 'd NoteComponent \<times> effect list" where
  "queryParamsSubscriber env i s =
     (let note = getNote env i;
          s1 = s\<lparr>noteId := note_id note, originalNoteTitle := note_title note,
                 noteTitle := note_title note\<rparr>;
          (s2, called, thrown) = getNoteContentAsync env s1
      in (s2,
          [LogInfo (''Opening note with id='' @ note_id note),
           SetNoteIsOpen (note_id note) True] @ called @
          (case thrown of None \<Rightarrow> [] | Some e \<Rightarrow> [UnhandledRejection e])))"

text \<open>
  The subscriber of \<open>saveChangedAndCloseNoteWindow\<close>, debounced by
  \<open>windowCloseTimeoutMilliseconds\<close>.
\<close>

definition closeNoteWindowSubscriber ::
  "'d collaborators \<Rightarrow> 'd NoteComponent \<Rightarrow> 'd NoteComponent \<times> effect list" where
  "closeNoteWindowSubscriber env s =
     (let (s1, called) = saveNoteAll env s
      in (s1,
          [LogInfo (''Closing note with id='' @ noteId s @ '' after saving changes.''),
           SetNoteIsOpen (noteId s) False] @ called @ [WindowClose]))"

text \<open>
  What can happen to the component: the route delivers an id, the editor or the title
  field reports an edit, the window is about to close, or the timer of one of the three
  debounced subjects elapses. A timer that elapses hands the waiting value to the
  subscriber; the subscribers of the title and the text subject are \<open>saveNoteTitleAsync\<close>
  and \<open>saveNoteContentAsync\<close>. Each subscriber runs to its end before the next event:
  the only suspension in a save method is the lookup of the error text.
\<close>

datatype 'd event =
    QueryParams string
  | TextChange 'd
  | NotetitleChange string
  | BeforeUnload
  | NoteTitleChangedDue
  | NoteTextChangedDue
  | SaveChangedAndCloseDue

fun step :: "'d collaborators \<Rightarrow> 'd event \<Rightarrow> 'd NoteComponent \<Rightarrow> 'd NoteComponent \<times> effect list" where
  "step env (QueryParams i) s = queryParamsSubscriber env i s"
| "step env (TextChange d) s = (textChange d s, [])"
| "step env (NotetitleChange t) s = (onNotetitleChange t s, [])"
| "step env BeforeUnload s = beforeunloadHandler s"
| "step env NoteTitleChangedDue s =
     (case noteTitleChanged s of
        None \<Rightarrow> (s, [])
      | Some t \<Rightarrow> saveNoteTitleAsync env (s\<lparr>noteTitleChanged := None\<rparr>) t)"
| "step env NoteTextChangedDue s =
     (case noteTextChanged s of
        None \<Rightarrow> (s, [])
      | Some u \<Rightarrow> saveNoteContentAsync env (s\<lparr>noteTextChanged := None\<rparr>))"
| "step env SaveChangedAndCloseDue s =
     (case saveChangedAndCloseNoteWindow s of
        None \<Rightarrow> (s, [])
      | Some u \<Rightarrow> closeNoteWindowSubscriber env (s\<lparr>saveChangedAndCloseNoteWindow := None\<rparr>))"

fun run :: "'d collaborators \<Rightarrow> 'd event list \<Rightarrow> 'd NoteComponent \<Rightarrow> 'd NoteComponent \<times> effect list" where
  "run env [] s = (s, [])"
| "run env (e # es) s =
     (let (s1, called1) = step env e s;
          (s2, called2) = run env es s1
      in (s2, called1 @ called2))"

subsection \<open>The collection service's rename\<close>

text \<open>
  Modelled from the spec: \<open>CollectionService.renameNote\<close> (services/collection.service)
  is not under the sources; only its call in \<open>saveNoteTitleAsync\<close> is. The spec's Rename
  Resolver gives its rules, in order: a proposed title that is empty after trimming
  whitespace gives \<open>Blank\<close> and no store call is made; otherwise the store's rename
  operation is called with (id, old title, new title); if the store reports failure the
  result is \<open>Failure\<close>; if the store accepts, the result is \<open>Success\<close> carrying the
  accepted title. The store's rename operation is the parameter \<open>storeRename\<close>
  (\<open>None\<close>: it reports failure, \<open>Some t\<close>: it accepts with title \<open>t\<close>); the second
  component of the result lists the calls made on it.
\<close>

definition isWhitespace :: "char \<Rightarrow> bool" where
  "isWhitespace c =
     (c = CHR '' '' \<or> c = CHR 0x09 \<or> c = CHR 0x0A \<or> c = CHR 0x0B \<or> c = CHR 0x0C \<or> c = CHR 0x0D)"

definition trim :: "string \<Rightarrow> string" where
  "trim s = rev (dropWhile isWhitespace (rev (dropWhile isWhitespace s)))"

definition CollectionService_renameNote ::
  "(string \<Rightarrow> string \<Rightarrow> string \<Rightarrow> string option) \<Rightarrow> string \<Rightarrow> string \<Rightarrow> string \<Rightarrow>
     RenameNoteResult \<times> (string \<times> string \<times> string) list" where
  "CollectionService_renameNote storeRename i oldTitle newTitle =
     (if trim newTitle = [] then (\<lparr>operation = Blank, newNoteTitle = ''''\<rparr>, [])
      else
        (case storeRename i oldTitle newTitle of
           None \<Rightarrow> (\<lparr>operation = Error, newNoteTitle = ''''\<rparr>, [(i, oldTitle, newTitle)])
         | Some accepted \<Rightarrow>
             (\<lparr>operation = Success, newNoteTitle = accepted\<rparr>, [(i, oldTitle, newTitle)])))"

text \<open>The collaborators with this rename in the place of \<open>renameNote\<close>.\<close>

definition withRenameResolver ::
  "(string \<Rightarrow> string \<Rightarrow> string \<Rightarrow> string option) \<Rightarrow> 'd collaborators \<Rightarrow> 'd collaborators" where
  "withRenameResolver storeRename env =
     env\<lparr>renameNote := \<lambda>i oldTitle newTitle.
                          fst (CollectionService_renameNote storeRename i oldTitle newTitle)\<rparr>"

subsection \<open>Reading a trace\<close>

fun isLog :: "effect \<Rightarrow> bool" where
  "isLog (LogInfo m) = True"
| "isLog _ = False"

text \<open>The error surface is the error dialog.\<close>

fun isErrorSurface :: "effect \<Rightarrow> bool" where
  "isErrorSurface (DialogOpen w t) = True"
| "isErrorSurface _ = False"

text \<open>The methods of the collection service that write to the store.\<close>

fun isStoreOperation :: "effect \<Rightarrow> bool" where
  "isStoreOperation (RenameNote i a b) = True"
| "isStoreOperation (UpdateNoteContent i a b) = True"
| "isStoreOperation (UpdateNote i a b c) = True"
| "isStoreOperation _ = False"

fun isFlushAll :: "effect \<Rightarrow> bool" where
  "isFlushAll (UpdateNote i a b c) = True"
| "isFlushAll _ = False"

fun isNoLongerOpen :: "effect \<Rightarrow> bool" where
  "isNoLongerOpen (SetNoteIsOpen i b) = (\<not> b)"
| "isNoLongerOpen _ = False"

fun isRealClose :: "effect \<Rightarrow> bool" where
  "isRealClose WindowClose = True"
| "isRealClose _ = False"

text \<open>
  \<open>occursBefore P Q tr\<close>: the trace has a \<open>Q\<close> entry, and its first \<open>P\<close> entry stands
  before its first \<open>Q\<close> entry.
\<close>

definition firstIndex :: "('a \<Rightarrow> bool) \<Rightarrow> 'a list \<Rightarrow> nat" where
  "firstIndex P tr = length (takeWhile (\<lambda>e. \<not> P e) tr)"

definition occursBefore :: "('a \<Rightarrow> bool) \<Rightarrow> ('a \<Rightarrow> bool) \<Rightarrow> 'a list \<Rightarrow> bool" where
  "occursBefore P Q tr = (firstIndex P tr < firstIndex Q tr \<and> firstIndex Q tr < length tr)"

subsection \<open>Concrete collaborators and notes\<close>

text \<open>
  A store that accepts everything, over an editor whose contents are a plain string:
  \<open>JSON_stringify\<close> puts the contents in braces and \<open>JSON_parse\<close> accepts exactly such
  texts.
\<close>

definition env0 :: "string collaborators" where
  "env0 =
     \<lparr>getNote = (\<lambda>i. \<lparr>note_id = i, note_title = ''Old''\<rparr>),
      renameNote = (\<lambda>i oldTitle newTitle. \<lparr>operation = Success, newNoteTitle = newTitle\<rparr>),
      updateNoteContent = (\<lambda>i a b. Success),
      updateNote = (\<lambda>i t a b. Success),
      getNoteContent = (\<lambda>i. \<lparr>getOperation = Success, noteContent = Some ''{}''\<rparr>),
      translate = (\<lambda>k ps. k),
      getText = (\<lambda>d. d),
      JSON_stringify = (\<lambda>d. ''{'' @ d @ ''}''),
      JSON_parse = (\<lambda>c. case c of
                           [] \<Rightarrow> None
                         | x # r \<Rightarrow> if x = CHR ''{'' \<and> r \<noteq> [] \<and> last r = CHR ''}''
                                    then Some (butlast r) else None)\<rparr>"

text \<open>A store whose every write fails, and which holds a content that is no JSON.\<close>

definition envFail :: "string collaborators" where
  "envFail =
     env0\<lparr>renameNote := (\<lambda>i oldTitle newTitle. \<lparr>operation = Error, newNoteTitle = ''''\<rparr>),
          updateNoteContent := (\<lambda>i a b. Error),
          updateNote := (\<lambda>i t a b. Error),
          getNoteContent := (\<lambda>i. \<lparr>getOperation = Success, noteContent = Some ''not json''\<rparr>)\<rparr>"

text \<open>A store whose rename answers with a member of \<open>Operation\<close> the component does not name.\<close>

definition envOther :: "string collaborators" where
  "envOther =
     env0\<lparr>renameNote := (\<lambda>i oldTitle newTitle.
                           \<lparr>operation = OtherOperation 0, newNoteTitle = newTitle\<rparr>)\<rparr>"

text \<open>A store's rename operation that accepts every title as it is.\<close>

definition storeAccepts :: "string \<Rightarrow> string \<Rightarrow> string \<Rightarrow> string option" where
  "storeAccepts i oldTitle newTitle = Some newTitle"

text \<open>The note \<open>n1\<close> titled \<open>Old\<close>, just loaded: nothing waits, nothing is dirty.\<close>

definition note0 :: "string NoteComponent" where
  "note0 =
     \<lparr>noteTitleChanged = None, noteTextChanged = None, saveChangedAndCloseNoteWindow = None,
      isTitleChanged = False, isContentChanged = False,
      noteId = ''n1'', originalNoteTitle = ''Old'', noteTitle = ''Old'', quill = ''''\<rparr>"

text \<open>
  The same note after the user typed the title \<open>New\<close>: the title field of the template
  (which is not among the sources) holds the public field \<open>noteTitle\<close> and reports the
  edit to \<open>onNotetitleChange\<close>.
\<close>

definition typed0 :: "string NoteComponent" where
  "typed0 = onNotetitleChange ''New'' (note0\<lparr>noteTitle := ''New''\<rparr>)"

section \<open>Properties\<close>

subsection \<open>The close sequence\<close>

text \<open>
  The title of note \<open>n1\<close> is edited, the window is about to close, the close timer
  elapses. The trace notifies the store that the note is no longer open before it
  flushes: the flush does not stand before the notice.
\<close>

theorem C1_counterexample:
  "isAnyDirty (fst (step env0 (NotetitleChange ''New'') note0)) \<and>
   \<not> occursBefore isFlushAll isNoLongerOpen
       (snd (run env0 [BeforeUnload, SaveChangedAndCloseDue]
               (fst (step env0 (NotetitleChange ''New'') note0))))"
  by (simp add: isAnyDirty_def onNotetitleChange_def beforeunloadHandler_def
      closeNoteWindowSubscriber_def saveNoteAll_def env0_def note0_def
      occursBefore_def firstIndex_def)

text \<open>
  C1, as the code has it. When the close signal arrives while a dirty flag is set, the
  handler suppresses the close, clears both flags and lets the close subject wait. When
  its timer elapses, the subscriber first tells the store that the note is no longer
  open, then runs \<open>saveNoteAll\<close> (one \<open>updateNote\<close> call with the current title and
  contents, which returns before the next statement), then closes the window. Nothing
  else is called.
\<close>

theorem C1_close_sequence:
  assumes "isTitleChanged s \<or> isContentChanged s"
  shows "run env [BeforeUnload, SaveChangedAndCloseDue] s =
     (s\<lparr>isTitleChanged := False, isContentChanged := False,
        saveChangedAndCloseNoteWindow := None\<rparr>,
      [LogInfo (''Detected closing of note with id='' @ noteId s),
       LogInfo (''Note with id='' @ noteId s @
                '' is dirty. Preventing close to save changes first.''),
       PreventDefault,
       SetReturnValue '''',
       LogInfo (''Closing note with id='' @ noteId s @ '' after saving changes.''),
       SetNoteIsOpen (noteId s) False,
       UpdateNote (noteId s) (noteTitle s) (getText env (quill s)) (JSON_stringify env (quill s)),
       WindowClose])"
  using assms
  by (simp add: beforeunloadHandler_def closeNoteWindowSubscriber_def saveNoteAll_def)

text \<open>The sequence on the note \<open>n1\<close> whose title field holds \<open>New\<close>.\<close>

theorem C1_close_sequence_witness:
  "(isTitleChanged typed0 \<or> isContentChanged typed0) \<and>
   snd (run env0 [BeforeUnload, SaveChangedAndCloseDue] typed0) =
     [LogInfo ''Detected closing of note with id=n1'',
      LogInfo ''Note with id=n1 is dirty. Preventing close to save changes first.'',
      PreventDefault,
      SetReturnValue '''',
      LogInfo ''Closing note with id=n1 after saving changes.'',
      SetNoteIsOpen ''n1'' False,
      UpdateNote ''n1'' ''New'' '''' ''{}'',
      WindowClose]"
proof -
  have dirty: "isTitleChanged typed0 \<or> isContentChanged typed0"
    by (simp add: typed0_def onNotetitleChange_def)
  show ?thesis
    using dirty C1_close_sequence [OF dirty, of env0]
    by (simp add: typed0_def note0_def env0_def onNotetitleChange_def)
qed

subsection \<open>The dirty flags and the debounced saves\<close>

text \<open>
  The scenario of the spec: the title \<open>New\<close> is typed, the title timer elapses, the
  store accepts the rename. The local title is \<open>New\<close>, and the title flag is still set.
\<close>

theorem C2_counterexample:
  "operation (renameNote env0 ''n1'' ''Old'' ''New'') = Success \<and>
   noteTitle (fst (run env0 [NotetitleChange ''New'', NoteTitleChangedDue] note0)) = ''New'' \<and>
   isTitleChanged (fst (run env0 [NotetitleChange ''New'', NoteTitleChangedDue] note0)) \<and>
   isAnyDirty (fst (run env0 [NotetitleChange ''New'', NoteTitleChangedDue] note0))"
  by (simp add: isAnyDirty_def onNotetitleChange_def saveNoteTitleAsync_def env0_def note0_def)

text \<open>No method but the close-signal handler writes a dirty flag.\<close>

lemma saveNoteTitleAsync_flags:
  "isTitleChanged (fst (saveNoteTitleAsync env s t)) = isTitleChanged s \<and>
   isContentChanged (fst (saveNoteTitleAsync env s t)) = isContentChanged s"
  by (simp add: saveNoteTitleAsync_def Let_def)

lemma saveNoteContentAsync_flags:
  "isTitleChanged (fst (saveNoteContentAsync env s)) = isTitleChanged s \<and>
   isContentChanged (fst (saveNoteContentAsync env s)) = isContentChanged s"
  by (simp add: saveNoteContentAsync_def Let_def)

lemma getNoteContentAsync_flags:
  "isTitleChanged (fst (getNoteContentAsync env s)) = isTitleChanged s \<and>
   isContentChanged (fst (getNoteContentAsync env s)) = isContentChanged s"
  by (simp add: getNoteContentAsync_def Let_def split: option.splits)

lemma queryParamsSubscriber_flags:
  "isTitleChanged (fst (queryParamsSubscriber env i s)) = isTitleChanged s \<and>
   isContentChanged (fst (queryParamsSubscriber env i s)) = isContentChanged s"
proof -
  let ?s1 = "s\<lparr>noteId := note_id (getNote env i),
               originalNoteTitle := note_title (getNote env i),
               noteTitle := note_title (getNote env i)\<rparr>"
  obtain s2 called thrown where loaded: "getNoteContentAsync env ?s1 = (s2, called, thrown)"
    by (cases "getNoteContentAsync env ?s1") auto
  from getNoteContentAsync_flags [of env ?s1] loaded show ?thesis
    by (simp add: queryParamsSubscriber_def Let_def)
qed

lemma closeNoteWindowSubscriber_flags:
  "isTitleChanged (fst (closeNoteWindowSubscriber env s)) = isTitleChanged s \<and>
   isContentChanged (fst (closeNoteWindowSubscriber env s)) = isContentChanged s"
  by (simp add: closeNoteWindowSubscriber_def saveNoteAll_def Let_def)

text \<open>An event that is not the close signal leaves a set flag set.\<close>

lemma step_keeps_set_flags:
  assumes "e \<noteq> BeforeUnload"
  shows "(isTitleChanged s \<longrightarrow> isTitleChanged (fst (step env e s))) \<and>
         (isContentChanged s \<longrightarrow> isContentChanged (fst (step env e s)))"
proof (cases e)
  case (QueryParams i)
  then show ?thesis by (simp add: queryParamsSubscriber_flags)
next
  case (TextChange d)
  then show ?thesis by (simp add: textChange_def)
next
  case (NotetitleChange t)
  then show ?thesis by (simp add: onNotetitleChange_def)
next
  case BeforeUnload
  with assms show ?thesis by simp
next
  case NoteTitleChangedDue
  then show ?thesis by (simp add: saveNoteTitleAsync_flags split: option.splits)
next
  case NoteTextChangedDue
  then show ?thesis by (simp add: saveNoteContentAsync_flags split: option.splits)
next
  case SaveChangedAndCloseDue
  then show ?thesis by (simp add: closeNoteWindowSubscriber_flags split: option.splits)
qed

text \<open>
  C2, as the code has it. A save attempt never writes a dirty flag, whatever its outcome:
  after \<open>saveNoteTitleAsync\<close> and after \<open>saveNoteContentAsync\<close> both flags are what they
  were before. So after an edit and the save of its channel the flag of the channel is
  still set. The flags are cleared by the close-signal handler only: the subscriber of
  the route and the close subscriber leave both flags as they are, and whatever happens
  to the component other than the close signal leaves a set flag set.
\<close>

theorem C2_save_keeps_flags:
  "isTitleChanged (fst (saveNoteTitleAsync env s t)) = isTitleChanged s \<and>
   isContentChanged (fst (saveNoteTitleAsync env s t)) = isContentChanged s \<and>
   isTitleChanged (fst (saveNoteContentAsync env s)) = isTitleChanged s \<and>
   isContentChanged (fst (saveNoteContentAsync env s)) = isContentChanged s \<and>
   isTitleChanged (fst (run env [NotetitleChange t, NoteTitleChangedDue] s)) \<and>
   isContentChanged (fst (run env [TextChange d, NoteTextChangedDue] s)) \<and>
   \<not> isAnyDirty (fst (beforeunloadHandler s)) \<and>
   isTitleChanged (fst (queryParamsSubscriber env i s)) = isTitleChanged s \<and>
   isContentChanged (fst (queryParamsSubscriber env i s)) = isContentChanged s \<and>
   isTitleChanged (fst (closeNoteWindowSubscriber env s)) = isTitleChanged s \<and>
   isContentChanged (fst (closeNoteWindowSubscriber env s)) = isContentChanged s \<and>
   (e \<noteq> BeforeUnload \<longrightarrow>
      (isTitleChanged s \<longrightarrow> isTitleChanged (fst (step env e s))) \<and>
      (isContentChanged s \<longrightarrow> isContentChanged (fst (step env e s))))"
proof -
  have edits:
    "isTitleChanged (fst (run env [NotetitleChange t, NoteTitleChangedDue] s)) \<and>
     isContentChanged (fst (run env [TextChange d, NoteTextChangedDue] s)) \<and>
     \<not> isAnyDirty (fst (beforeunloadHandler s))"
    by (simp add: saveNoteTitleAsync_def saveNoteContentAsync_def beforeunloadHandler_def
        onNotetitleChange_def textChange_def isAnyDirty_def Let_def)
  show ?thesis
    using edits saveNoteTitleAsync_flags [of env s t] saveNoteContentAsync_flags [of env s]
      queryParamsSubscriber_flags [of env i s] closeNoteWindowSubscriber_flags [of env s]
      step_keeps_set_flags [of e s env]
    by simp
qed

text \<open>
  On the note \<open>n1\<close>, with a rename that fails and with one that succeeds, and with the
  title timer as the event that is not the close signal.
\<close>

theorem C2_save_keeps_flags_witness:
  "isTitleChanged (fst (saveNoteTitleAsync envFail typed0 ''New'')) \<and>
   isTitleChanged (fst (saveNoteTitleAsync env0 typed0 ''New'')) \<and>
   \<not> isContentChanged (fst (saveNoteContentAsync env0 typed0)) \<and>
   \<not> isAnyDirty (fst (beforeunloadHandler typed0)) \<and>
   NoteTitleChangedDue \<noteq> (BeforeUnload :: string event) \<and>
   isTitleChanged typed0 \<and>
   isTitleChanged (fst (step env0 NoteTitleChangedDue typed0)) \<and>
   isTitleChanged (fst (queryParamsSubscriber env0 ''n1'' typed0))"
  using C2_save_keeps_flags [of envFail typed0 "''New''" "''''" "''n1''" NoteTitleChangedDue]
    C2_save_keeps_flags [of env0 typed0 "''New''" "''''" "''n1''" NoteTitleChangedDue]
  by (simp add: typed0_def note0_def onNotetitleChange_def)

subsection \<open>A blank title\<close>

text \<open>
  C3. For every proposed title that is empty after trimming whitespace, the rename yields
  \<open>Blank\<close> without a call of the store's rename operation (the list of the calls is
  empty), and the title save reverts the local title to \<open>originalNoteTitle\<close>: the state
  is otherwise unchanged, and the component calls the collection service's \<open>renameNote\<close>
  and the snack bar's notice, nothing else.
\<close>

theorem C3_blank_title:
  assumes "trim newTitle = []"
  shows "CollectionService_renameNote storeRename (noteId s) (originalNoteTitle s) newTitle =
           (\<lparr>operation = Blank, newNoteTitle = ''''\<rparr>, []) \<and>
         saveNoteTitleAsync (withRenameResolver storeRename env) s newTitle =
           (s\<lparr>noteTitle := originalNoteTitle s\<rparr>,
            [RenameNote (noteId s) (originalNoteTitle s) newTitle, NoteTitleCannotBeEmptyAsync])"
  using assms
  by (simp add: CollectionService_renameNote_def withRenameResolver_def saveNoteTitleAsync_def)

text \<open>The title of three spaces, on the note \<open>n1\<close> whose title field holds \<open>New\<close>.\<close>

theorem C3_blank_title_witness:
  "trim ''   '' = [] \<and>
   snd (CollectionService_renameNote storeAccepts ''n1'' ''Old'' ''   '') = [] \<and>
   operation (fst (CollectionService_renameNote storeAccepts ''n1'' ''Old'' ''   '')) = Blank \<and>
   noteTitle (fst (saveNoteTitleAsync (withRenameResolver storeAccepts env0) typed0 ''   '')) = ''Old''"
proof -
  have blank: "trim ''   '' = []"
    by (simp add: trim_def isWhitespace_def)
  show ?thesis
    using blank C3_blank_title [OF blank, of storeAccepts typed0 env0]
    by (simp add: typed0_def note0_def onNotetitleChange_def)
qed

subsection \<open>A second close signal\<close>

text \<open>
  C4 says that a close signal received while the close sequence is under way is without
  effect. The code, at the note \<open>n1\<close> whose title was edited to \<open>New\<close>: the first close
  signal is suppressed and the close subject waits for its timer. A second close signal
  before the timer elapses finds both flags cleared by the first. The handler takes the
  clean branch: it logs that the note is clean, tells the store that the note is no
  longer open and does not suppress the close, while the flush still waits. Neither
  close signal has called \<open>updateNote\<close>.
\<close>

theorem C4_second_close_signal_loses_flush:
  "isTitleChanged typed0 \<and>
   PreventDefault \<in> set (snd (step env0 BeforeUnload typed0)) \<and>
   saveChangedAndCloseNoteWindow (fst (step env0 BeforeUnload typed0)) = Some '''' \<and>
   step env0 BeforeUnload (fst (step env0 BeforeUnload typed0)) =
     (fst (step env0 BeforeUnload typed0),
      [LogInfo ''Detected closing of note with id=n1'',
       LogInfo ''Note with id=n1 is clean. Closing directly.'',
       SetNoteIsOpen ''n1'' False]) \<and>
   PreventDefault \<notin> set (snd (step env0 BeforeUnload (fst (step env0 BeforeUnload typed0)))) \<and>
   filter isFlushAll (snd (run env0 [BeforeUnload, BeforeUnload] typed0)) = []"
  by (simp add: beforeunloadHandler_def typed0_def note0_def onNotetitleChange_def)

subsection \<open>The channel timers after the flush\<close>

text \<open>
  Title and text are edited, the window is about to close, the close timer elapses. Both
  flags are clear and the flush is done; the text timer and the title timer, elapsing
  now, each call the collection service.
\<close>

theorem C5_counterexample:
  "\<not> isAnyDirty (fst (run env0 [NotetitleChange ''New'', TextChange ''hello'', BeforeUnload,
                                 SaveChangedAndCloseDue] note0)) \<and>
   filter isStoreOperation
     (snd (step env0 NoteTextChangedDue
             (fst (run env0 [NotetitleChange ''New'', TextChange ''hello'', BeforeUnload,
                             SaveChangedAndCloseDue] note0)))) =
     [UpdateNoteContent ''n1'' ''hello'' ''{hello}''] \<and>
   filter isStoreOperation
     (snd (step env0 NoteTitleChangedDue
             (fst (run env0 [NotetitleChange ''New'', TextChange ''hello'', BeforeUnload,
                             SaveChangedAndCloseDue] note0)))) =
     [RenameNote ''n1'' ''Old'' ''New'']"
  by (simp add: isAnyDirty_def onNotetitleChange_def textChange_def beforeunloadHandler_def
      closeNoteWindowSubscriber_def saveNoteAll_def saveNoteTitleAsync_def
      saveNoteContentAsync_def env0_def note0_def)

text \<open>
  C5, as the code has it. The save methods never read the dirty flags. Whenever the
  timer of a channel elapses while a value waits, also with both flags clear, the title
  save calls \<open>renameNote\<close> and the content save calls \<open>updateNoteContent\<close>, once. The
  close signal and the close subscriber leave waiting in both channels what waits there.
\<close>

theorem C5_timers_still_save:
  "(noteTitleChanged s = Some t \<longrightarrow>
      filter isStoreOperation (snd (step env NoteTitleChangedDue s)) =
        [RenameNote (noteId s) (originalNoteTitle s) t]) \<and>
   (noteTextChanged s = Some u \<longrightarrow>
      filter isStoreOperation (snd (step env NoteTextChangedDue s)) =
        [UpdateNoteContent (noteId s) (getText env (quill s)) (JSON_stringify env (quill s))]) \<and>
   noteTitleChanged (fst (run env [BeforeUnload, SaveChangedAndCloseDue] s)) = noteTitleChanged s \<and>
   noteTextChanged (fst (run env [BeforeUnload, SaveChangedAndCloseDue] s)) = noteTextChanged s"
  by (simp add: saveNoteTitleAsync_def saveNoteContentAsync_def beforeunloadHandler_def
      closeNoteWindowSubscriber_def saveNoteAll_def Let_def split: option.splits)

text \<open>On the note \<open>n1\<close> whose title \<open>New\<close> waits, before and after the close sequence.\<close>

theorem C5_timers_still_save_witness:
  "noteTitleChanged typed0 = Some ''New'' \<and>
   \<not> isAnyDirty (fst (run env0 [BeforeUnload, SaveChangedAndCloseDue] typed0)) \<and>
   noteTitleChanged (fst (run env0 [BeforeUnload, SaveChangedAndCloseDue] typed0)) = Some ''New'' \<and>
   filter isStoreOperation (snd (step env0 NoteTitleChangedDue typed0)) =
     [RenameNote ''n1'' ''Old'' ''New'']"
  using C5_timers_still_save [of typed0 "''New''" env0 "''''"]
  by (simp add: isAnyDirty_def beforeunloadHandler_def closeNoteWindowSubscriber_def
      saveNoteAll_def typed0_def note0_def onNotetitleChange_def)

subsection \<open>Failures of the store\<close>

text \<open>
  The store fails the update of the flush: \<open>saveNoteAll\<close> calls \<open>updateNote\<close> and opens
  no error dialog.
\<close>

theorem C6_counterexample:
  "updateNote envFail (noteId note0) (noteTitle note0) (getText envFail (quill note0))
     (JSON_stringify envFail (quill note0)) = Error \<and>
   snd (saveNoteAll envFail note0) = [UpdateNote ''n1'' ''Old'' '''' ''{}''] \<and>
   length (filter isErrorSurface (snd (saveNoteAll envFail note0))) \<noteq> 1"
  by (simp add: saveNoteAll_def envFail_def env0_def note0_def)

text \<open>
  C6, as the code has it. On the two debounced save paths the result of the store call
  is inspected: the title save and the content save each open the error dialog exactly
  once when the store answers \<open>Error\<close>, and not at all otherwise. The flush at close
  drops the result of \<open>updateNote\<close>: it opens no error dialog, whatever the store
  answered, and so does the close subscriber around it.
\<close>

theorem C6_failure_reports:
  "length (filter isErrorSurface (snd (saveNoteTitleAsync env s t))) =
     (if operation (renameNote env (noteId s) (originalNoteTitle s) t) = Error then 1 else 0) \<and>
   length (filter isErrorSurface (snd (saveNoteContentAsync env s))) =
     (if updateNoteContent env (noteId s) (getText env (quill s)) (JSON_stringify env (quill s))
         = Error then 1 else 0) \<and>
   filter isErrorSurface (snd (saveNoteAll env s)) = [] \<and>
   filter isErrorSurface (snd (closeNoteWindowSubscriber env s)) = []"
  by (simp add: saveNoteTitleAsync_def saveNoteContentAsync_def saveNoteAll_def
      closeNoteWindowSubscriber_def Let_def)

text \<open>With the store whose every write fails.\<close>

theorem C6_failure_reports_witness:
  "operation (renameNote envFail ''n1'' ''Old'' ''New'') = Error \<and>
   length (filter isErrorSurface (snd (saveNoteTitleAsync envFail typed0 ''New''))) = 1 \<and>
   length (filter isErrorSurface (snd (saveNoteContentAsync envFail typed0))) = 1 \<and>
   filter isErrorSurface (snd (saveNoteAll envFail typed0)) = []"
  using C6_failure_reports [of envFail typed0 "''New''"]
  by (simp add: envFail_def env0_def typed0_def note0_def onNotetitleChange_def)

subsection \<open>Loading a content that does not parse\<close>

text \<open>
  The store holds the content \<open>not json\<close> for the note \<open>n1\<close>. Loading it opens no error
  dialog, and the \<open>SyntaxError\<close> leaves \<open>getNoteContentAsync\<close> and the subscriber of the
  route.
\<close>

theorem C7_counterexample:
  "getNoteContent envFail (noteId note0) =
     \<lparr>getOperation = Success, noteContent = Some ''not json''\<rparr> \<and>
   JSON_parse envFail ''not json'' = None \<and>
   getNoteContentAsync envFail note0 = (note0, [GetNoteContent ''n1''], Some SyntaxError) \<and>
   filter isErrorSurface (fst (snd (getNoteContentAsync envFail note0))) = [] \<and>
   snd (queryParamsSubscriber envFail ''n1'' note0) =
     [LogInfo ''Opening note with id=n1'', SetNoteIsOpen ''n1'' True, GetNoteContent ''n1'',
      UnhandledRejection SyntaxError]"
  by (simp add: getNoteContentAsync_def queryParamsSubscriber_def envFail_def env0_def note0_def)

text \<open>
  C7, as the code has it. When the store returns, without \<open>Error\<close>, a content that is not
  empty and that \<open>JSON.parse\<close> rejects, \<open>getNoteContentAsync\<close> calls nothing but
  \<open>getNoteContent\<close>: no error is surfaced. The method leaves the state as it is, and the
  \<open>SyntaxError\<close> is its outcome. The subscriber of the route, which awaits the method,
  has by then told the store that the note is open and taken the note's id and title;
  the \<open>SyntaxError\<close> leaves it unhandled, and the editor keeps the contents it had
  before the load.
\<close>

theorem C7_unparsable_content:
  "(getOperation (getNoteContent env (noteId s)) \<noteq> Error \<and>
    noteContent (getNoteContent env (noteId s)) = Some c \<and> c \<noteq> [] \<and>
    JSON_parse env c = None \<longrightarrow>
      getNoteContentAsync env s = (s, [GetNoteContent (noteId s)], Some SyntaxError)) \<and>
   (getOperation (getNoteContent env (note_id (getNote env i))) \<noteq> Error \<and>
    noteContent (getNoteContent env (note_id (getNote env i))) = Some c \<and> c \<noteq> [] \<and>
    JSON_parse env c = None \<longrightarrow>
      queryParamsSubscriber env i s =
        (s\<lparr>noteId := note_id (getNote env i),
           originalNoteTitle := note_title (getNote env i),
           noteTitle := note_title (getNote env i)\<rparr>,
         [LogInfo (''Opening note with id='' @ note_id (getNote env i)),
          SetNoteIsOpen (note_id (getNote env i)) True,
          GetNoteContent (note_id (getNote env i)),
          UnhandledRejection SyntaxError]) \<and>
      quill (fst (queryParamsSubscriber env i s)) = quill s)"
  by (simp add: getNoteContentAsync_def queryParamsSubscriber_def Let_def)

text \<open>The content \<open>not json\<close> of the note \<open>n1\<close>, loaded into the empty editor.\<close>

theorem C7_unparsable_content_witness:
  "getOperation (getNoteContent envFail (noteId note0)) \<noteq> Error \<and>
   noteContent (getNoteContent envFail (noteId note0)) = Some ''not json'' \<and>
   JSON_parse envFail ''not json'' = None \<and>
   note_id (getNote envFail ''n1'') = ''n1'' \<and>
   getNoteContentAsync envFail note0 = (note0, [GetNoteContent ''n1''], Some SyntaxError) \<and>
   queryParamsSubscriber envFail ''n1'' note0 =
     (note0,
      [LogInfo ''Opening note with id=n1'', SetNoteIsOpen ''n1'' True, GetNoteContent ''n1'',
       UnhandledRejection SyntaxError]) \<and>
   quill (fst (queryParamsSubscriber envFail ''n1'' note0)) = ''''"
  using C7_unparsable_content [of envFail note0 "''not json''" "''n1''"]
  by (simp add: envFail_def env0_def note0_def)

subsection \<open>A failed content save\<close>

text \<open>
  C8. When the store answers \<open>Error\<close> to \<open>updateNoteContent\<close>, the content save opens the
  error dialog exactly once, with the text of \<open>ErrorTexts.UpdateNoteContentError\<close>, after
  the one store call. The content save never writes the state, whatever the store
  answers: the editor's contents are what they were.
\<close>

theorem C8_content_failure:
  "(updateNoteContent env (noteId s) (getText env (quill s)) (JSON_stringify env (quill s))
      = Error \<longrightarrow>
      snd (saveNoteContentAsync env s) =
        [UpdateNoteContent (noteId s) (getText env (quill s)) (JSON_stringify env (quill s)),
         DialogOpen ''450px'' (translate env ''ErrorTexts.UpdateNoteContentError'' [])] \<and>
      length (filter isErrorSurface (snd (saveNoteContentAsync env s))) = 1) \<and>
   fst (saveNoteContentAsync env s) = s \<and>
   quill (fst (saveNoteContentAsync env s)) = quill s"
  by (simp add: saveNoteContentAsync_def Let_def)

text \<open>The text \<open>hello\<close> typed into the note \<open>n1\<close>, with the store whose every write fails.\<close>

theorem C8_content_failure_witness:
  "updateNoteContent envFail ''n1'' ''hello'' ''{hello}'' = Error \<and>
   saveNoteContentAsync envFail (textChange ''hello'' note0) =
     (textChange ''hello'' note0,
      [UpdateNoteContent ''n1'' ''hello'' ''{hello}'',
       DialogOpen ''450px'' ''ErrorTexts.UpdateNoteContentError'']) \<and>
   quill (fst (saveNoteContentAsync envFail (textChange ''hello'' note0))) = ''hello''"
  using C8_content_failure [of envFail "textChange ''hello'' note0"]
  by (simp add: envFail_def env0_def note0_def textChange_def prod_eq_iff)

subsection \<open>A rename result the component does not name\<close>

text \<open>
  The store answers the rename \<open>Old\<close> to \<open>New\<close> with another member of \<open>Operation\<close>. The
  title save calls \<open>renameNote\<close> and nothing else: the title field keeps \<open>New\<close>, not the
  original title \<open>Old\<close>, and no error dialog is opened.
\<close>

theorem C9_counterexample:
  "operation (renameNote envOther (noteId typed0) (originalNoteTitle typed0) ''New'') =
     OtherOperation 0 \<and>
   originalNoteTitle typed0 = ''Old'' \<and>
   noteTitle (fst (saveNoteTitleAsync envOther typed0 ''New'')) = ''New'' \<and>
   snd (saveNoteTitleAsync envOther typed0 ''New'') = [RenameNote ''n1'' ''Old'' ''New''] \<and>
   filter isErrorSurface (snd (saveNoteTitleAsync envOther typed0 ''New'')) = []"
  by (simp add: saveNoteTitleAsync_def envOther_def env0_def typed0_def note0_def
      onNotetitleChange_def)

text \<open>
  C9, as the code has it. A rename result that is none of \<open>Blank\<close>, \<open>Error\<close> and
  \<open>Success\<close> is ignored: the title save leaves the whole state as it is (the local title
  is not reverted) and calls nothing after \<open>renameNote\<close> (no error is surfaced).
\<close>

theorem C9_other_result_ignored:
  assumes "operation (renameNote env (noteId s) (originalNoteTitle s) t) \<noteq> Blank"
    and "operation (renameNote env (noteId s) (originalNoteTitle s) t) \<noteq> Error"
    and "operation (renameNote env (noteId s) (originalNoteTitle s) t) \<noteq> Success"
  shows "saveNoteTitleAsync env s t = (s, [RenameNote (noteId s) (originalNoteTitle s) t])"
  using assms by (simp add: saveNoteTitleAsync_def Let_def)

text \<open>The rename of the note \<open>n1\<close> answered with \<open>OtherOperation 0\<close>.\<close>

theorem C9_other_result_ignored_witness:
  "operation (renameNote envOther (noteId typed0) (originalNoteTitle typed0) ''New'') \<noteq> Blank \<and>
   operation (renameNote envOther (noteId typed0) (originalNoteTitle typed0) ''New'') \<noteq> Error \<and>
   operation (renameNote envOther (noteId typed0) (originalNoteTitle typed0) ''New'') \<noteq> Success \<and>
   saveNoteTitleAsync envOther typed0 ''New'' = (typed0, [RenameNote ''n1'' ''Old'' ''New''])"
proof -
  have a: "operation (renameNote envOther (noteId typed0) (originalNoteTitle typed0) ''New'') \<noteq> Blank"
    by (simp add: envOther_def)
  have b: "operation (renameNote envOther (noteId typed0) (originalNoteTitle typed0) ''New'') \<noteq> Error"
    by (simp add: envOther_def)
  have c: "operation (renameNote envOther (noteId typed0) (originalNoteTitle typed0) ''New'') \<noteq> Success"
    by (simp add: envOther_def)
  show ?thesis
    using a b c C9_other_result_ignored [OF a b c]
    by (simp add: typed0_def note0_def onNotetitleChange_def)
qed

subsection \<open>The original title\<close>

text \<open>
  C10. A title save whose result is \<open>Blank\<close> or \<open>Error\<close> changes the state in the field
  \<open>noteTitle\<close> only, which becomes \<open>originalNoteTitle\<close>; \<open>originalNoteTitle\<close> itself is
  unchanged by every save whose result is not \<open>Success\<close>, and on \<open>Success\<close> it becomes
  the title the result carries.
\<close>

theorem C10_original_title_frame:
  "(operation (renameNote env (noteId s) (originalNoteTitle s) t) = Blank \<or>
    operation (renameNote env (noteId s) (originalNoteTitle s) t) = Error \<longrightarrow>
      fst (saveNoteTitleAsync env s t) = s\<lparr>noteTitle := originalNoteTitle s\<rparr> \<and>
      originalNoteTitle (fst (saveNoteTitleAsync env s t)) = originalNoteTitle s) \<and>
   (operation (renameNote env (noteId s) (originalNoteTitle s) t) \<noteq> Success \<longrightarrow>
      originalNoteTitle (fst (saveNoteTitleAsync env s t)) = originalNoteTitle s) \<and>
   (operation (renameNote env (noteId s) (originalNoteTitle s) t) = Success \<longrightarrow>
      originalNoteTitle (fst (saveNoteTitleAsync env s t)) =
        newNoteTitle (renameNote env (noteId s) (originalNoteTitle s) t))"
  by (simp add: saveNoteTitleAsync_def Let_def)

text \<open>The rename of the note \<open>n1\<close>, failed by one store and accepted by another.\<close>

theorem C10_original_title_frame_witness:
  "operation (renameNote envFail (noteId typed0) (originalNoteTitle typed0) ''New'') = Error \<and>
   fst (saveNoteTitleAsync envFail typed0 ''New'') = typed0\<lparr>noteTitle := ''Old''\<rparr> \<and>
   originalNoteTitle (fst (saveNoteTitleAsync envFail typed0 ''New'')) = ''Old'' \<and>
   operation (renameNote env0 (noteId typed0) (originalNoteTitle typed0) ''New'') = Success \<and>
   originalNoteTitle (fst (saveNoteTitleAsync env0 typed0 ''New'')) = ''New''"
  using C10_original_title_frame [of envFail typed0 "''New''"]
    C10_original_title_frame [of env0 typed0 "''New''"]
  by (simp add: envFail_def env0_def typed0_def note0_def onNotetitleChange_def)

end
